theory Spec2Isabelle
  imports Complex_Main "HOL-Library.Word" "HOL-Library.Log_Nat"
begin

unbundle bit_operations_syntax

section \<open>Python values\<close>

text \<open>
  A Python \<open>str\<close> object. The plotting functions compare their string arguments in two
  ways: \<open>mode in ['labelling', ...]\<close> compares the characters, while
  \<open>mode is 'labelling'\<close> compares object identity. CPython interns every identifier-like
  string constant of a code object, so a string is identical to such a literal exactly when
  it is the interned object with those characters; a string built at run time (by
  concatenation, by formatting, read from a file) is a fresh object.
\<close>

datatype pystr = Str (interned: bool) (chars: string)

definition py_is :: "pystr \<Rightarrow> string \<Rightarrow> bool" where
  "py_is s lit = (interned s \<and> chars s = lit)"

text \<open>\<open>a + b\<close> on strings at run time: a fresh object.\<close>

definition py_concat :: "string \<Rightarrow> pystr \<Rightarrow> pystr" where
  "py_concat a s = Str False (a @ chars s)"

text \<open>\<open>sub in s\<close> on strings: \<open>sub\<close> occurs as a contiguous run of \<open>s\<close>.\<close>

fun str_contains :: "string \<Rightarrow> string \<Rightarrow> bool" where
  "str_contains sub [] = (sub = [])"
| "str_contains sub (c # cs) = (take (length sub) (c # cs) = sub \<or> str_contains sub cs)"

text \<open>
  Exceptions. \<open>Exception msg\<close> is what the source raises itself, with its message; the
  others are raised by the interpreter or by numpy and pandas.
\<close>

datatype py_exn =
    Exception string
  | ValueError
  | AttributeError
  | KeyError string
  | IndexError
  | UnboundLocalError string
  | NameError string

definition then_do :: "py_exn + 'a \<Rightarrow> ('a \<Rightarrow> py_exn + 'b) \<Rightarrow> py_exn + 'b" where
  "then_do r k = (case r of Inl e \<Rightarrow> Inl e | Inr v \<Rightarrow> k v)"

definition has_key :: "('k \<rightharpoonup> 'v) \<Rightarrow> 'k \<Rightarrow> bool" where
  "has_key m k = (m k \<noteq> None)"

section \<open>numpy and scipy values\<close>

text \<open>
  A numpy float (\<open>float64\<close>). A finite double is given by the real number it stands
  for; the three non-finite values are kept, because numpy division by zero returns them
  (with a warning) instead of raising. Signed zeros are not distinguished.
\<close>

datatype npfloat = Fin real | PosInf | NegInf | NaN

text \<open>
  The arithmetic of doubles is the arithmetic of the reals followed by rounding to the
  nearest double, a tie going to the even significand (IEEE 754, binary64).
  \<open>round_half_even\<close> rounds a real to the nearest integer in that way, and
  \<open>exponent2 a\<close> is the integer part of the binary logarithm of \<open>a > 0\<close>. A double has
  53 significant bits, so the doubles next to \<open>x\<close> are the multiples of
  \<open>2 ^ (e - 52)\<close> for \<open>e = exponent2 \<bar>x\<bar>\<close>; below the exponent \<open>-1022\<close> their
  spacing stays \<open>2 ^ (-1074)\<close>. The result \<open>n * 2 ^ (e - 52)\<close> is infinite when it reaches
  \<open>2 ^ 1024\<close>: when the exponent is above 1023, or is 1023 and the significand rounds up
  to \<open>2 ^ 53\<close>.
\<close>

definition round_half_even :: "real \<Rightarrow> int" where
  "round_half_even m =
     (let f = \<lfloor>m\<rfloor>; d = m - of_int f
      in if d < 1 / 2 then f else if 1 / 2 < d then f + 1 else if even f then f else f + 1)"

definition exponent2 :: "real \<Rightarrow> int" where
  "exponent2 a = (if 1 \<le> a then bitlen \<lfloor>a\<rfloor> - 1 else - bitlen (\<lceil>1 / a\<rceil> - 1))"

definition signed_inf :: "real \<Rightarrow> npfloat" where
  "signed_inf s = (if s = 0 then NaN else if 0 < s then PosInf else NegInf)"

definition rnd :: "real \<Rightarrow> npfloat" where
  "rnd x =
     (if x = 0 then Fin 0
      else
        let e = max (exponent2 \<bar>x\<bar>) (- 1022);
            q = 2 powi (e - 52);
            n = round_half_even (\<bar>x\<bar> / q)
        in if 1023 < e \<or> (e = 1023 \<and> n = 2 ^ 53) then signed_inf (sgn x)
           else Fin (sgn x * (of_int n * q)))"

fun np_add :: "npfloat \<Rightarrow> npfloat \<Rightarrow> npfloat" where
  "np_add NaN _ = NaN"
| "np_add _ NaN = NaN"
| "np_add (Fin a) (Fin b) = rnd (a + b)"
| "np_add PosInf NegInf = NaN"
| "np_add NegInf PosInf = NaN"
| "np_add PosInf _ = PosInf"
| "np_add _ PosInf = PosInf"
| "np_add NegInf _ = NegInf"
| "np_add _ NegInf = NegInf"

fun np_sign :: "npfloat \<Rightarrow> real" where
  "np_sign (Fin a) = sgn a"
| "np_sign PosInf = 1"
| "np_sign NegInf = - 1"
| "np_sign NaN = 0"

fun np_multiply :: "npfloat \<Rightarrow> npfloat \<Rightarrow> npfloat" where
  "np_multiply NaN _ = NaN"
| "np_multiply _ NaN = NaN"
| "np_multiply (Fin a) (Fin b) = rnd (a * b)"
| "np_multiply a b = signed_inf (np_sign a * np_sign b)"

fun np_divide :: "npfloat \<Rightarrow> npfloat \<Rightarrow> npfloat" where
  "np_divide NaN _ = NaN"
| "np_divide _ NaN = NaN"
| "np_divide (Fin a) (Fin b) = (if b = 0 then signed_inf (sgn a) else rnd (a / b))"
| "np_divide (Fin a) _ = Fin 0"
| "np_divide a (Fin b) = signed_inf (np_sign a * (if b < 0 then - 1 else 1))"
| "np_divide _ _ = NaN"

text \<open>Negation and the absolute value are exact.\<close>

fun np_negative :: "npfloat \<Rightarrow> npfloat" where
  "np_negative (Fin a) = Fin (- a)"
| "np_negative PosInf = NegInf"
| "np_negative NegInf = PosInf"
| "np_negative NaN = NaN"

definition np_subtract :: "npfloat \<Rightarrow> npfloat \<Rightarrow> npfloat" where
  "np_subtract a b = np_add a (np_negative b)"

fun np_abs :: "npfloat \<Rightarrow> npfloat" where
  "np_abs (Fin a) = Fin \<bar>a\<bar>"
| "np_abs NaN = NaN"
| "np_abs _ = PosInf"

text \<open>\<open>np.clip(v, 0, 1)\<close> on one entry: \<open>minimum(maximum(v, 0), 1)\<close>; NaN stays NaN.\<close>

fun np_clip01 :: "npfloat \<Rightarrow> npfloat" where
  "np_clip01 (Fin a) = Fin (min (max a 0) 1)"
| "np_clip01 PosInf = Fin 1"
| "np_clip01 NegInf = Fin 0"
| "np_clip01 NaN = NaN"

text \<open>
  An array value: a one-dimensional \<open>numpy.ndarray\<close>, or a two-dimensional
  \<open>numpy.matrix\<close> with its shape and its entries in row-major order.
\<close>

datatype 'a npvalue = Arr1 "'a list" | Matrix nat nat "'a list"

fun shape_of :: "'a npvalue \<Rightarrow> nat \<times> nat" where
  "shape_of (Arr1 xs) = (1, length xs)"
| "shape_of (Matrix r c xs) = (r, c)"

fun data_of :: "'a npvalue \<Rightarrow> 'a list" where
  "data_of (Arr1 xs) = xs"
| "data_of (Matrix r c xs) = xs"

fun is_matrix :: "'a npvalue \<Rightarrow> bool" where
  "is_matrix (Arr1 xs) = False"
| "is_matrix (Matrix r c xs) = True"

text \<open>numpy broadcasting of one axis: equal extents, or one of them is 1.\<close>

definition bdim :: "nat \<Rightarrow> nat \<Rightarrow> nat option" where
  "bdim a b = (if a = b then Some a else if a = 1 then Some b else if b = 1 then Some a else None)"

definition entry_at :: "'a npvalue \<Rightarrow> nat \<Rightarrow> nat \<Rightarrow> 'a" where
  "entry_at a i j =
     (case shape_of a of (r, c) \<Rightarrow>
        data_of a ! ((if r = 1 then 0 else i) * c + (if c = 1 then 0 else j)))"

text \<open>
  An elementwise binary operator (\<open>+\<close>, \<open>/\<close>, \<open>*\<close>) on two array values. A
  one-dimensional array of length n broadcasts as a 1-by-n row; shapes that do not
  broadcast raise ValueError; the result is a matrix as soon as one operand is.
\<close>

definition broadcast_op ::
  "('a \<Rightarrow> 'b \<Rightarrow> 'c) \<Rightarrow> 'a npvalue \<Rightarrow> 'b npvalue \<Rightarrow> py_exn + 'c npvalue" where
  "broadcast_op f a b =
     (case (bdim (fst (shape_of a)) (fst (shape_of b)), bdim (snd (shape_of a)) (snd (shape_of b))) of
        (Some r, Some c) \<Rightarrow>
          (let d = concat (map (\<lambda>i. map (\<lambda>j. f (entry_at a i j) (entry_at b i j)) [0..<c]) [0..<r])
           in Inr (if is_matrix a \<or> is_matrix b then Matrix r c d else Arr1 d))
      | _ \<Rightarrow> Inl ValueError)"

text \<open>
  A layer of an AnnData object: a dense two-dimensional \<open>numpy.ndarray\<close>, given by its
  rows, or a scipy CSR matrix, given by its number of columns and, for each row, the
  stored (column, value) entries of that row.
\<close>

datatype layer = Dense "real list list" | Sparse nat "(nat \<times> real) list list"

fun issparse :: "layer \<Rightarrow> bool" where
  "issparse (Dense rows) = False"
| "issparse (Sparse nc rows) = True"


text \<open>
  The sum of a list of doubles, added one after the other from \<open>0.0\<close>.
\<close>

definition np_sum :: "npfloat list \<Rightarrow> npfloat" where
  "np_sum xs = foldl np_add (Fin 0) xs"

text \<open>
  \<open>np.sum(m, 1)\<close> and \<open>m.sum(1)\<close>: for an ndarray the one-dimensional array of the row
  sums; for a scipy matrix both go to its \<open>sum\<close> method, which returns an n-by-1
  \<open>numpy.matrix\<close>. The entries of a row are added as doubles: all the entries of an
  ndarray row from the first to the last, and only the stored entries of a CSR row, in
  the order in which they are stored. (For long rows numpy and scipy group the additions
  in blocks; no property below depends on the grouping.)
\<close>

fun sum_axis1 :: "layer \<Rightarrow> npfloat npvalue" where
  "sum_axis1 (Dense rows) = Arr1 (map (\<lambda>r. np_sum (map Fin r)) rows)"
| "sum_axis1 (Sparse nc rows) =
     Matrix (length rows) 1 (map (\<lambda>r. np_sum (map (\<lambda>e. Fin (snd e)) r)) rows)"

text \<open>The attribute \<open>.A1\<close>: a \<open>numpy.matrix\<close> flattened; an ndarray has no such attribute.\<close>

fun A1 :: "'a npvalue \<Rightarrow> py_exn + 'a npvalue" where
  "A1 (Arr1 xs) = Inl AttributeError"
| "A1 (Matrix r c xs) = Inr (Arr1 xs)"

text \<open>The row sums of a layer as a plain list, whichever way the layer is stored.\<close>

definition row_sums :: "layer \<Rightarrow> npfloat list" where
  "row_sums m = data_of (sum_axis1 m)"

section \<open>AnnData, data frames and the calls into seaborn\<close>

text \<open>
  The parts of an AnnData object that the plotting functions read: the cell and gene
  names (\<open>adata.obs.index\<close>, \<open>adata.var.index\<close>), the matrix \<open>adata.X\<close>, the
  dictionary \<open>adata.layers\<close>, the columns of \<open>adata.obs\<close> (cell annotations) and of
  \<open>adata.var\<close> (numeric gene parameters, doubles), and \<open>adata.obsm\<close>, whose entries are dense
  arrays given by their number of columns and their rows.
\<close>

record anndata =
  obs_names :: "string list"
  var_names :: "string list"
  X_matrix :: layer
  layers :: "string \<rightharpoonup> layer"
  obs :: "string \<rightharpoonup> string list"
  var :: "string \<rightharpoonup> npfloat list"
  obsm :: "string \<rightharpoonup> nat \<times> real list list"

text \<open>
  A pandas data frame of float columns, in column order, and its long form after
  \<open>melt\<close>: one row (group, variable, value) for each entry of each value column, the
  group being absent when there is no \<open>group\<close> column.
\<close>

type_synonym data_frame = "(string \<times> npfloat list) list"

type_synonym long_frame = "(string option \<times> string \<times> npfloat) list"

text \<open>
  One column of \<open>pd.DataFrame(dict, index=adata.obs.index)\<close> for an index of n entries: a
  one-dimensional array of n values is taken as it is, one of a single value is repeated,
  any other length does not fit the index, and a two-dimensional value is rejected.
\<close>

fun column_values :: "nat \<Rightarrow> npfloat npvalue \<Rightarrow> py_exn + npfloat list" where
  "column_values n (Arr1 xs) =
     (if length xs = n then Inr xs
      else if length xs = 1 then Inr (replicate n (hd xs))
      else Inl ValueError)"
| "column_values n (Matrix r c xs) = Inl (Exception ''Data must be 1-dimensional'')"

fun DataFrame :: "(string \<times> npfloat npvalue) list \<Rightarrow> nat \<Rightarrow> py_exn + data_frame" where
  "DataFrame [] n = Inr []"
| "DataFrame ((name, v) # cols) n =
     then_do (column_values n v) (\<lambda>xs.
     then_do (DataFrame cols n) (\<lambda>df. Inr ((name, xs) # df)))"

definition melt :: "data_frame \<Rightarrow> string list option \<Rightarrow> long_frame" where
  "melt df id_group =
     concat (map (\<lambda>(name, xs).
        case id_group of
          None \<Rightarrow> map (\<lambda>v. (None, name, v)) xs
        | Some g \<Rightarrow> map2 (\<lambda>gi v. (Some gi, name, v)) g xs) df)"

text \<open>
  The model of a plotting function ends where the source hands its data to seaborn:
  \<open>sns.violinplot(x="variable", y="value", data=res)\<close> or
  \<open>sns.catplot(..., data=res, kind='violin', col="group", col_wrap=4)\<close>.
\<close>

datatype seaborn_call = Violinplot long_frame | Catplot long_frame


section \<open>show\_fraction (preprocess.py)\<close>

text \<open>
  Labelling mode, line 35. The right-hand side
  \<^verbatim>\<open>np.sum(new_mat, 1), np.sum(total_mat, 1) if not issparse(new_mat) else new_mat.sum(1).A1, total_mat.sum(1).A1\<close>
  is a tuple of three expressions, the conditional being the second; they are evaluated
  from left to right and the three values are then unpacked into the two names
  \<open>new_cell_sum, tot_cell_sum\<close>, which raises ValueError. Lines 38 to 46 are never
  reached and are not modelled.
\<close>

definition labelling_branch :: "anndata \<Rightarrow> py_exn + long_frame" where
  "labelling_branch adata =
     (let new_mat = the (layers adata ''new'');
          total_mat = the (layers adata ''total'')
      in then_do (Inr (sum_axis1 new_mat)) (\<lambda>e1.
         then_do (if \<not> issparse new_mat then Inr (sum_axis1 total_mat)
                  else A1 (sum_axis1 new_mat)) (\<lambda>e2.
         then_do (A1 (sum_axis1 total_mat)) (\<lambda>e3.
         Inl ValueError))))"

text \<open>
  Splicing mode, lines 49 to 66: the per-cell sums, their total and the data frame
  \<open>df\<close> of the fractions. The sums are arrays of doubles, and \<open>+\<close> and \<open>/\<close> on
  them are the rounded addition and division, entry by entry.
\<close>

definition splicing_frame :: "anndata \<Rightarrow> py_exn + data_frame" where
  "splicing_frame adata =
     (let ambiguous =
            (if has_key (layers adata) ''ambiguous'' then the (layers adata ''ambiguous'')
             else if issparse (the (layers adata ''unspliced'')) then Sparse 1 [[]]
             else Dense [[0]]);
          unspliced_mat = the (layers adata ''unspliced'');
          spliced_mat = the (layers adata ''spliced'');
          ambiguous_mat = ambiguous
      in then_do
           (if \<not> issparse unspliced_mat
            then Inr (sum_axis1 unspliced_mat, sum_axis1 spliced_mat)
            else then_do (A1 (sum_axis1 unspliced_mat)) (\<lambda>u.
                 then_do (A1 (sum_axis1 spliced_mat)) (\<lambda>s. Inr (u, s))))
           (\<lambda>(un_cell_sum, sp_cell_sum).
              if has_key (layers adata) ''ambiguous'' then
                then_do (if issparse unspliced_mat then A1 (sum_axis1 ambiguous_mat)
                         else Inr (sum_axis1 ambiguous_mat)) (\<lambda>am_cell_sum.
                then_do (broadcast_op np_add un_cell_sum sp_cell_sum) (\<lambda>un_sp.
                then_do (broadcast_op np_add un_sp am_cell_sum) (\<lambda>tot_cell_sum.
                then_do (broadcast_op np_divide un_cell_sum tot_cell_sum) (\<lambda>un_frac_cell.
                then_do (broadcast_op np_divide sp_cell_sum tot_cell_sum) (\<lambda>sp_frac_cell.
                then_do (broadcast_op np_divide am_cell_sum tot_cell_sum) (\<lambda>am_frac_cell.
                DataFrame [(''unspliced'', un_frac_cell), (''spliced'', sp_frac_cell),
                           (''ambiguous'', am_frac_cell)] (length (obs_names adata))))))))
              else
                then_do (broadcast_op np_add un_cell_sum sp_cell_sum) (\<lambda>tot_cell_sum.
                then_do (broadcast_op np_divide un_cell_sum tot_cell_sum) (\<lambda>un_frac_cell.
                then_do (broadcast_op np_divide sp_cell_sum tot_cell_sum) (\<lambda>sp_frac_cell.
                DataFrame [(''unspliced'', un_frac_cell), (''spliced'', sp_frac_cell)]
                          (length (obs_names adata)))))))"

text \<open>Lines 68 to 74: the optional \<open>group\<close> column and the melt.\<close>

definition splicing_branch :: "anndata \<Rightarrow> string option \<Rightarrow> py_exn + long_frame" where
  "splicing_branch adata grp =
     then_do (splicing_frame adata) (\<lambda>df.
       case grp of
         None \<Rightarrow> Inr (melt df None)
       | Some g \<Rightarrow>
           (if has_key (obs adata) g then Inr (melt df (obs adata g))
            else Inr (melt df None)))"

text \<open>
  Full mode, lines 78 and 79: as in labelling mode, the right-hand side is a tuple, here
  of seven expressions (the conditional is the fourth), unpacked into four names. Lines
  81 to 89 are never reached and are not modelled.
\<close>

definition full_branch :: "anndata \<Rightarrow> py_exn + long_frame" where
  "full_branch adata =
     (let uu = the (layers adata ''uu''); ul = the (layers adata ''ul'');
          su = the (layers adata ''su''); sl = the (layers adata ''sl'')
      in then_do (Inr (sum_axis1 uu)) (\<lambda>e1.
         then_do (Inr (sum_axis1 ul)) (\<lambda>e2.
         then_do (Inr (sum_axis1 su)) (\<lambda>e3.
         then_do (if \<not> issparse uu then Inr (sum_axis1 sl) else A1 (sum_axis1 uu)) (\<lambda>e4.
         then_do (A1 (sum_axis1 ul)) (\<lambda>e5.
         then_do (A1 (sum_axis1 su)) (\<lambda>e6.
         then_do (A1 (sum_axis1 sl)) (\<lambda>e7.
         Inl ValueError))))))))"

text \<open>
  \<open>show_fraction(adata, mode, group)\<close>; the argument \<open>group\<close> (\<open>None\<close> or a column
  name) is written \<open>grp\<close>.
\<close>

definition show_fraction :: "anndata \<Rightarrow> pystr \<Rightarrow> string option \<Rightarrow> py_exn + seaborn_call" where
  "show_fraction adata mode grp =
     (if \<not> (chars mode \<in> set [''labelling'', ''splicing'', ''full'']) then
        Inl (Exception ''mode can be only one of the labelling, splicing or full'')
      else
        then_do
          (if py_is mode ''labelling'' \<and> list_all (has_key (layers adata)) [''new'', ''total'']
           then labelling_branch adata
           else if py_is mode ''splicing''
                   \<and> list_all (has_key (layers adata)) [''spliced'', ''unspliced'']
           then splicing_branch adata grp
           else if py_is mode ''full''
                   \<and> list_all (has_key (layers adata)) [''uu'', ''ul'', ''su'', ''sl'']
           then full_branch adata
           else Inl (Exception (''Your adata is corrupted. Make sure that your layer has keys new, total for the labelling mode, ''
                                @ ''spliced, (ambiguous, optional), unspliced for the splicing model and uu, ul, su, sl for the full mode'')))
          (\<lambda>res. if grp = None then Inr (Violinplot res) else Inr (Catplot res)))"

section \<open>The channel extractors of scatters.py\<close>

text \<open>
  \<open>_red\<close>, \<open>_green\<close> and \<open>_blue\<close> are \<open>numba.vectorize\<close>d with signature
  \<open>uint8(uint32)\<close>: the value of the expression is converted to \<open>uint8\<close>, which keeps its
  low eight bits. \<open>red_bits\<close> is the value of the expression, \<open>red\<close> the returned byte.
\<close>

definition red_bits :: "32 word \<Rightarrow> 32 word" where
  "red_bits x = drop_bit 16 (x AND 0xFF0000)"

definition green_bits :: "32 word \<Rightarrow> 32 word" where
  "green_bits x = drop_bit 8 (x AND 0x00FF00)"

definition blue_bits :: "32 word \<Rightarrow> 32 word" where
  "blue_bits x = x AND 0x0000FF"

definition red :: "32 word \<Rightarrow> 8 word" where
  "red x = ucast (red_bits x)"

definition green :: "32 word \<Rightarrow> 8 word" where
  "green x = ucast (green_bits x)"

definition blue :: "32 word \<Rightarrow> 8 word" where
  "blue x = ucast (blue_bits x)"

section \<open>The checks that open phase\_portraits and scatters\<close>

text \<open>
  \<open>m[:, x]\<close> on a dense array with nc columns: a negative index counts from the end, an
  index outside \<open>[-nc, nc)\<close> raises IndexError.
\<close>

definition column :: "nat \<times> real list list \<Rightarrow> int \<Rightarrow> py_exn + real list" where
  "column m x =
     (case m of (nc, rows) \<Rightarrow>
        (let j = (if x < 0 then int nc + x else x)
         in if 0 \<le> j \<and> j < int nc then Inr (map (\<lambda>r. r ! nat j) rows) else Inl IndexError))"

text \<open>
  Lines 223 to 231 of preprocess.py and, word for word, lines 162 to 170 of scatters.py:
  the genes of \<open>adata.var.index\<close> that are in the argument \<open>genes\<close>, with their positions,
  and the two columns x and y of the embedding \<open>adata.obsm['X_' + basis]\<close>.
\<close>

definition genes_and_embedding ::
  "anndata \<Rightarrow> string list \<Rightarrow> int \<Rightarrow> int \<Rightarrow> string
     \<Rightarrow> py_exn + (string list \<times> nat list \<times> real list \<times> real list)" where
  "genes_and_embedding adata genes x y basis =
     (let genes' = filter (\<lambda>g. g \<in> set genes) (var_names adata);
          idx = filter (\<lambda>i. var_names adata ! i \<in> set genes) [0..<length (var_names adata)]
      in if length genes' = 0 then
           Inl (Exception (''adata has no genes listed in your input gene vector: '' @ ''[]''))
         else if \<not> has_key (obsm adata) (''X_'' @ basis) then
           Inl (Exception (basis @ '' is not applied to adata.''))
         else
           then_do (column (the (obsm adata (''X_'' @ basis))) x) (\<lambda>dim_1.
           then_do (column (the (obsm adata (''X_'' @ basis))) y) (\<lambda>dim_2.
           Inr (genes', idx, dim_1, dim_2))))"

text \<open>
  phase\_portraits, lines 223 to 234. \<open>Inr\<close> means that execution goes on at line 236 with
  the selected genes, their positions and the embedding.
\<close>

definition phase_portraits_checks ::
  "anndata \<Rightarrow> string list \<Rightarrow> int \<Rightarrow> int \<Rightarrow> pystr \<Rightarrow> string
     \<Rightarrow> py_exn + (string list \<times> nat list \<times> real list \<times> real list)" where
  "phase_portraits_checks adata genes x y mode basis =
     then_do (genes_and_embedding adata genes x y basis) (\<lambda>found.
       if \<not> (chars mode \<in> set [''labelling'', ''splicing'', ''full'']) then
         Inl (Exception ''mode can be only one of the labelling, splicing or full'')
       else Inr found)"

section \<open>scatters (scatters.py), lines 157 to 219\<close>

text \<open>
  Lines 157 to 160 compute the point size (a numpy division, which warns and does not
  raise when there is no cell) and the keyword arguments of the scatter calls; nothing
  there raises or is read again before line 219.

  The local variables of scatters that decide its control flow up to line 219. The values
  of \<open>E_vec\<close> and \<open>color_vec\<close> are not used before that line; the model keeps whether
  \<open>E_vec\<close> is bound and the exceptions that computing them can raise. \<open>vkey\<close> is
  \<open>None\<close> while the name is unbound.
\<close>

record scatters_locals =
  sc_genes :: "string list"
  sc_embedding :: "real list \<times> real list"
  sc_mode :: pystr
  sc_E_vec_bound :: bool
  sc_n_genes :: nat
  sc_color :: "string list option"
  sc_vkey :: "pystr option"

text \<open>Lines 172 to 180: the mode, from the layers that are present.\<close>

definition scatters_mode :: "anndata \<Rightarrow> py_exn + pystr" where
  "scatters_mode adata =
     (if list_all (has_key (layers adata)) [''X_new'', ''X_total''] then Inr (Str True ''labeling'')
      else if list_all (has_key (layers adata)) [''X_spliced'', ''X_unspliced'']
        then Inr (Str True ''splicing'')
      else if list_all (has_key (layers adata)) [''X_uu'', ''X_ul'', ''X_su'', ''X_sl'']
        then Inr (Str True ''full'')
      else Inl (Exception (''your data should be in one of the proper mode: labelling (has X_new/X_total layers), splicing ''
                           @ ''(has X_spliced/X_unspliced layers) or full (has X_uu/X_ul/X_su/X_sl layers)'')))"

text \<open>
  Lines 182 to 190: \<open>E_vec\<close>. The result says whether the name was bound; a missing key
  of \<open>obsm\<close> or of \<open>layers\<close> raises KeyError.
\<close>

definition scatters_E_vec :: "anndata \<Rightarrow> pystr \<Rightarrow> py_exn + bool" where
  "scatters_E_vec adata ekey =
     (if has_key (layers adata) (chars ekey) \<or> chars ekey \<in> set [''X'', ''protein'', ''X_protein''] then
        (if py_is ekey ''X'' then Inr True
         else if chars ekey \<in> set [''protein'', ''X_protein''] then
           (if has_key (obsm adata) (chars ekey) then Inr True else Inl (KeyError (chars ekey)))
         else
           (if has_key (layers adata) (chars ekey) then Inr True else Inl (KeyError (chars ekey))))
      else Inr False)"

text \<open>
  Lines 194 to 202: \<open>color\<close> becomes the list of its entries that are columns of
  \<open>adata.obs\<close> (a Python set has no fixed order; the model lists them in the order of the
  argument), and \<open>color[0]\<close> raises IndexError when none is. The result is the new
  \<open>color\<close> and the new \<open>n_genes\<close>.
\<close>

definition scatters_color ::
  "anndata \<Rightarrow> pystr \<Rightarrow> string list option \<Rightarrow> nat \<Rightarrow> py_exn + (string list option \<times> nat)" where
  "scatters_color adata type color n_genes =
     (case color of
        None \<Rightarrow> Inr (None, n_genes)
      | Some cs \<Rightarrow>
          (let color' = remdups (filter (has_key (obs adata)) cs)
           in if length color' > 0 \<and> \<not> py_is type ''embedding'' then Inr (Some color', n_genes)
              else if color' = [] then Inl IndexError
              else Inr (Some color', length color')))"

text \<open>Lines 162 to 204.\<close>

definition scatters_setup ::
  "anndata \<Rightarrow> string list \<Rightarrow> int \<Rightarrow> int \<Rightarrow> pystr \<Rightarrow> pystr \<Rightarrow> pystr \<Rightarrow> string
     \<Rightarrow> string list option \<Rightarrow> py_exn + scatters_locals" where
  "scatters_setup adata genes x y type velocity_key ekey basis color =
     then_do (genes_and_embedding adata genes x y basis) (\<lambda>(genes', idx, dim_1, dim_2).
     then_do (scatters_mode adata) (\<lambda>mode.
     then_do (scatters_E_vec adata ekey) (\<lambda>E_vec_bound.
     then_do (scatters_color adata type color (length genes')) (\<lambda>(color', n_genes).
     Inr \<lparr>sc_genes = genes', sc_embedding = (dim_1, dim_2), sc_mode = mode,
          sc_E_vec_bound = E_vec_bound, sc_n_genes = n_genes, sc_color = color',
          sc_vkey = (if \<not> str_contains ''velocity_'' (chars velocity_key)
                     then Some (py_concat ''velocity_'' velocity_key) else None)\<rparr>))))"

text \<open>
  Where the model of scatters stops when no exception is raised: at line 207, the data
  frame of the embedding type, or at line 221, after a velocity layer was read.
\<close>

datatype scatters_point = At_line_207 scatters_locals | At_line_221 scatters_locals

text \<open>
  Lines 206 to 219. Reading the unbound name \<open>vkey\<close> raises UnboundLocalError;
  \<open>adata[:, genes].layers[...]\<close> raises KeyError on a missing layer.
\<close>

definition scatters_head ::
  "anndata \<Rightarrow> string list \<Rightarrow> int \<Rightarrow> int \<Rightarrow> pystr \<Rightarrow> pystr \<Rightarrow> pystr \<Rightarrow> string
     \<Rightarrow> string list option \<Rightarrow> py_exn + scatters_point" where
  "scatters_head adata genes x y type velocity_key ekey basis color =
     then_do (scatters_setup adata genes x y type velocity_key ekey basis color) (\<lambda>locals.
       if py_is type ''embedding'' then Inr (At_line_207 locals)
       else
         (case sc_vkey locals of
            None \<Rightarrow> Inl (UnboundLocalError ''vkey'')
          | Some vkey \<Rightarrow>
              if py_is vkey ''U'' then
                (if has_key (layers adata) ''velocity_U'' then Inr (At_line_221 locals)
                 else Inl (KeyError ''velocity_U''))
              else if py_is vkey ''S'' then
                (if has_key (layers adata) ''velocity_S'' then Inr (At_line_221 locals)
                 else Inl (KeyError ''velocity_S''))
              else Inl (Exception (''adata has no vkey '' @ chars vkey
                                   @ '' in either the layers or the obsm attribute''))))"

section \<open>The colour transform of the velocity panels\<close>

text \<open>
  The order in which \<open>np.sort\<close> arranges values that are not NaN, and insertion sort
  under that order.
\<close>

fun np_less_equal :: "npfloat \<Rightarrow> npfloat \<Rightarrow> bool" where
  "np_less_equal NegInf _ = True"
| "np_less_equal _ PosInf = True"
| "np_less_equal (Fin a) (Fin b) = (a \<le> b)"
| "np_less_equal _ _ = False"

fun insert_sorted :: "npfloat \<Rightarrow> npfloat list \<Rightarrow> npfloat list" where
  "insert_sorted x [] = [x]"
| "insert_sorted x (y # ys) = (if np_less_equal x y then x # y # ys else y # insert_sorted x ys)"

definition np_sort :: "npfloat list \<Rightarrow> npfloat list" where
  "np_sort xs = foldr insert_sorted xs []"

text \<open>
  The percentile q of a sorted, non-empty array without NaN, by linear interpolation as
  numpy does it, in doubles: the position \<open>q / 100 * (n - 1)\<close>, its two neighbours and
  their weights \<open>weights_above = indices - indices_below\<close> and
  \<open>weights_below = 1 - weights_above\<close>.
\<close>

definition percentile_sorted :: "npfloat list \<Rightarrow> real \<Rightarrow> npfloat" where
  "percentile_sorted a q =
     (case np_multiply (np_divide (Fin q) (Fin 100)) (Fin (real (length a - 1))) of
        Fin indices \<Rightarrow>
          (let indices_below = nat \<lfloor>indices\<rfloor>;
               indices_above = min (indices_below + 1) (length a - 1);
               weights_above = np_subtract (Fin indices) (Fin (real indices_below));
               weights_below = np_subtract (Fin 1) weights_above
           in np_add (np_multiply (a ! indices_below) weights_below)
                     (np_multiply (a ! indices_above) weights_above))
      | _ \<Rightarrow> NaN)"

text \<open>\<open>np.nanpercentile(v, qs)\<close>: NaN entries are left out; without any other entry the
  result is NaN (with a warning).\<close>

definition nanpercentile :: "npfloat list \<Rightarrow> real list \<Rightarrow> npfloat list" where
  "nanpercentile v qs =
     (let a = np_sort (filter (\<lambda>x. x \<noteq> NaN) v)
      in map (\<lambda>q. if a = [] then NaN else percentile_sorted a q) qs)"

text \<open>\<open>np.nanmax\<close>: the largest entry that is not NaN, NaN when there is none.\<close>

definition nanmax :: "npfloat list \<Rightarrow> npfloat" where
  "nanmax xs =
     (case filter (\<lambda>x. x \<noteq> NaN) xs of
        [] \<Rightarrow> NaN
      | y # ys \<Rightarrow> foldl (\<lambda>m x. if np_less_equal m x then x else m) y ys)"

text \<open>
  Lines 357 to 361 of preprocess.py and 412 to 416 of scatters.py, on the velocity column
  \<open>V_vec\<close>:
  \<^verbatim>\<open>limit = np.nanmax(np.abs(np.nanpercentile(V_vec, [1, 99])))\<close>,
  \<^verbatim>\<open>V_vec = V_vec + limit\<close>, \<^verbatim>\<open>V_vec = V_vec / (2 * limit)\<close>,
  \<^verbatim>\<open>V_vec = np.clip(V_vec, 0, 1)\<close>.
\<close>

definition velocity_limit :: "npfloat list \<Rightarrow> npfloat" where
  "velocity_limit V_vec = nanmax (map np_abs (nanpercentile V_vec [1, 99]))"

definition velocity_colour :: "npfloat list \<Rightarrow> npfloat list" where
  "velocity_colour V_vec =
     (let limit = velocity_limit V_vec;
          V_vec1 = map (\<lambda>v. np_add v limit) V_vec;
          V_vec2 = map (\<lambda>v. np_divide v (np_multiply (Fin 2) limit)) V_vec1
      in map np_clip01 V_vec2)"

section \<open>phase\_portraits (preprocess.py), lines 236 to 407\<close>

text \<open>
  A two-dimensional value inside phase_portraits: a \<open>numpy.ndarray\<close> by its rows, a scipy
  CSR matrix by its number of columns and the stored (column, value) entries of each
  row, or a \<open>numpy.matrix\<close> by its rows.
\<close>

datatype array2 =
    Ndarray "npfloat list list"
  | Spmatrix nat "(nat \<times> npfloat) list list"
  | Npmatrix "npfloat list list"

fun of_layer :: "layer \<Rightarrow> array2" where
  "of_layer (Dense rows) = Ndarray (map (map Fin) rows)"
| "of_layer (Sparse nc rows) = Spmatrix nc (map (map (\<lambda>e. (fst e, Fin (snd e)))) rows)"

fun is_sparse :: "array2 \<Rightarrow> bool" where
  "is_sparse (Spmatrix nc rows) = True"
| "is_sparse _ = False"

text \<open>
  \<open>adata[:, genes].layers[key]\<close>: the columns of a layer at the positions of the selected
  genes, in that order.
\<close>

fun select_columns :: "nat list \<Rightarrow> layer \<Rightarrow> layer" where
  "select_columns idx (Dense rows) = Dense (map (\<lambda>r. map (\<lambda>j. r ! j) idx) rows)"
| "select_columns idx (Sparse nc rows) =
     Sparse (length idx)
       (map (\<lambda>r. concat (map (\<lambda>k. map (\<lambda>e. (k, snd e)) (filter (\<lambda>e. fst e = idx ! k) r))
                            [0..<length idx])) rows)"

text \<open>
  The entries of a two-dimensional value as rows of doubles; entry j of a CSR row is the
  sum of its stored entries with column j (none: 0).
\<close>

definition stored_entry :: "(nat \<times> npfloat) list \<Rightarrow> nat \<Rightarrow> npfloat" where
  "stored_entry r j =
     (case map snd (filter (\<lambda>e. fst e = j) r) of [] \<Rightarrow> Fin 0 | v # vs \<Rightarrow> foldl np_add v vs)"

fun entries :: "array2 \<Rightarrow> npfloat list list" where
  "entries (Ndarray rows) = rows"
| "entries (Spmatrix nc rows) = map (\<lambda>r. map (stored_entry r) [0..<nc]) rows"
| "entries (Npmatrix rows) = rows"

text \<open>
  The attribute \<open>.A\<close> (a scipy matrix or a \<open>numpy.matrix\<close> as an ndarray; an ndarray has no
  such attribute) and the method \<open>flatten()\<close> (an ndarray row by row; a scipy matrix has
  no such method; a \<open>numpy.matrix\<close> stays two-dimensional, with one row).
\<close>

fun dot_A :: "array2 \<Rightarrow> py_exn + array2" where
  "dot_A (Ndarray rows) = Inl AttributeError"
| "dot_A m = Inr (Ndarray (entries m))"

fun flatten :: "array2 \<Rightarrow> py_exn + npfloat npvalue" where
  "flatten (Ndarray rows) = Inr (Arr1 (concat rows))"
| "flatten (Spmatrix nc rows) = Inl AttributeError"
| "flatten (Npmatrix rows) = Inr (Matrix 1 (length (concat rows)) (concat rows))"

text \<open>
  \<open>a + b\<close> on two-dimensional values of one shape: two ndarrays give an ndarray, two scipy
  matrices a scipy matrix, and any other pair a \<open>numpy.matrix\<close>; different shapes raise
  ValueError.
\<close>

definition add2 :: "array2 \<Rightarrow> array2 \<Rightarrow> py_exn + array2" where
  "add2 a b =
     (if map length (entries a) \<noteq> map length (entries b) then Inl ValueError
      else
        (case (a, b) of
           (Spmatrix nc ra, Spmatrix nc' rb) \<Rightarrow> Inr (Spmatrix nc (map2 (@) ra rb))
         | (Ndarray ra, Ndarray rb) \<Rightarrow> Inr (Ndarray (map2 (map2 np_add) ra rb))
         | _ \<Rightarrow> Inr (Npmatrix (map2 (map2 np_add) (entries a) (entries b)))))"

text \<open>
  Lines 236 to 244: \<open>E_vec\<close>, \<open>None\<close> while the name is unbound. A missing key of
  \<open>obsm\<close> or of \<open>layers\<close> raises KeyError.
\<close>

definition phase_portraits_E_vec :: "anndata \<Rightarrow> nat list \<Rightarrow> pystr \<Rightarrow> py_exn + array2 option" where
  "phase_portraits_E_vec adata idx ekey =
     (if has_key (layers adata) (chars ekey) \<or> chars ekey \<in> set [''X'', ''protein'', ''X_protein''] then
        (if py_is ekey ''X'' then Inr (Some (of_layer (select_columns idx (X_matrix adata))))
         else if chars ekey \<in> set [''protein'', ''X_protein''] then
           (case obsm adata (chars ekey) of
              None \<Rightarrow> Inl (KeyError (chars ekey))
            | Some m \<Rightarrow> Inr (Some (Ndarray (map (map Fin) (snd m)))))
         else
           (case layers adata (chars ekey) of
              None \<Rightarrow> Inl (KeyError (chars ekey))
            | Some m \<Rightarrow> Inr (Some (of_layer (select_columns idx m)))))
      else Inr None)"

text \<open>\<open>adata[:, genes].layers[key]\<close>, KeyError when the layer is missing.\<close>

definition get_layer :: "anndata \<Rightarrow> nat list \<Rightarrow> string \<Rightarrow> py_exn + array2" where
  "get_layer adata idx key =
     (case layers adata key of
        None \<Rightarrow> Inl (KeyError key)
      | Some m \<Rightarrow> Inr (of_layer (select_columns idx m)))"

text \<open>
  Lines 252 to 261: \<open>V_vec\<close> and \<open>P_vec\<close> (\<open>None\<close> while that name is unbound). In the
  branch of \<open>'U'\<close> the source reads the attribute \<open>layer\<close>, which an AnnData object does
  not have.
\<close>

definition phase_portraits_V_vec ::
  "anndata \<Rightarrow> nat list \<Rightarrow> pystr \<Rightarrow> py_exn + (array2 \<times> array2 option)" where
  "phase_portraits_V_vec adata idx vkey =
     (if py_is vkey ''U'' then
        then_do (get_layer adata idx ''velocity_U'') (\<lambda>V_vec.
          if has_key (obsm adata) ''velocity_P'' then Inl AttributeError
          else Inr (V_vec, None))
      else if py_is vkey ''S'' then
        then_do (get_layer adata idx ''velocity_S'') (\<lambda>V_vec.
          if has_key (obsm adata) ''velocity_P'' then
            then_do (get_layer adata idx ''velocity_P'') (\<lambda>P_vec. Inr (V_vec, Some P_vec))
          else Inr (V_vec, None))
      else Inl (Exception (''adata has no vkey '' @ chars vkey
                           @ '' in either the layers or the obsm slot'')))"

text \<open>
  Lines 263 and 264: \<^verbatim>\<open>if issparse(E_vec): E_vec, V_vec = E_vec.A, V_vec.A\<close>.
\<close>

definition phase_portraits_densify ::
  "array2 option \<Rightarrow> array2 \<Rightarrow> py_exn + (array2 \<times> array2)" where
  "phase_portraits_densify E_vec V_vec =
     (case E_vec of
        None \<Rightarrow> Inl (UnboundLocalError ''E_vec'')
      | Some E \<Rightarrow>
          if is_sparse E then
            then_do (dot_A E) (\<lambda>E'. then_do (dot_A V_vec) (\<lambda>V'. Inr (E', V')))
          else Inr (E, V_vec))"

text \<open>
  \<open>adata.var.col[genes].values\<close>: the entries of a column of \<open>adata.var\<close> at the labels
  \<open>genes\<close>; a label that occurs several times in the index selects all its rows.
\<close>

definition select_labels :: "string list \<Rightarrow> 'a list \<Rightarrow> string list \<Rightarrow> 'a list" where
  "select_labels names col genes =
     concat (map (\<lambda>g. map (\<lambda>i. col ! i) (filter (\<lambda>i. names ! i = g) [0..<length names])) genes)"

text \<open>
  Lines 266 to 272: \<open>gamma\<close> and \<open>velocity_offset\<close>.
\<close>

definition phase_portraits_gamma ::
  "anndata \<Rightarrow> string list \<Rightarrow> py_exn + (npfloat list \<times> npfloat list)" where
  "phase_portraits_gamma adata genes =
     (case var adata ''velocity_parameter_gamma'' of
        Some col \<Rightarrow>
          Inr (select_labels (var_names adata) col genes,
               (case var adata ''velocity_offset'' of
                  None \<Rightarrow> replicate (length genes) (Fin 0)
                | Some off \<Rightarrow> select_labels (var_names adata) off genes))
      | None \<Rightarrow>
          Inl (Exception (''adata does not seem to have velocity_gamma column. Velocity estimation is required before ''
                          @ ''running this function.'')))"

text \<open>
  The rows of the data frame \<open>df\<close>, with the columns that the loop over the genes reads:
  the first two columns (new and total, or unspliced and spliced), the gene, gamma,
  velocity_offset, expression, velocity and color. An entry of the column color is
  \<open>None\<close> for NaN and the name of a column of \<open>adata.obs\<close> otherwise.
\<close>

record phase_row =
  col_0 :: npfloat
  col_1 :: npfloat
  row_gene :: string
  row_gamma :: npfloat
  row_velocity_offset :: npfloat
  row_expression :: npfloat
  row_velocity :: npfloat
  row_color :: "string option"

text \<open>
  \<open>color_vec\<close> (lines 248 to 250) repeated for the column color:
  \<open>np.repeat(color_vec, n_genes)\<close>. Without the argument \<open>color\<close> it is NaN for every
  cell; with it, the names of \<open>color\<close> that are columns of \<open>adata.obs\<close> (a Python set has
  no fixed order; the model lists them in the order of the argument).
\<close>

definition color_column :: "anndata \<Rightarrow> string list option \<Rightarrow> nat \<Rightarrow> nat \<Rightarrow> string option list" where
  "color_column adata color n_cells n_genes =
     (case color of
        None \<Rightarrow> replicate (n_cells * n_genes) None
      | Some cs \<Rightarrow>
          concat (map (\<lambda>c. replicate n_genes (Some c)) (remdups (filter (has_key (obs adata)) cs))))"

text \<open>
  \<open>pd.DataFrame({...}, index=range(n_cells * n_genes))\<close> of lines 278, 286 and 316, from
  the values of the dictionary: every column must fit the index (\<open>column_values\<close>);
  \<open>genes * n_cells\<close> repeats the list of the genes once per cell and \<open>np.tile\<close> does the
  same to gamma and the offset.
\<close>

definition fit_index :: "nat \<Rightarrow> 'a list \<Rightarrow> py_exn + 'a list" where
  "fit_index n xs =
     (if length xs = n then Inr xs
      else if length xs = 1 then Inr (replicate n (hd xs))
      else Inl ValueError)"

definition phase_frame ::
  "nat \<Rightarrow> string list \<Rightarrow> npfloat npvalue \<Rightarrow> npfloat npvalue \<Rightarrow> npfloat list \<Rightarrow> npfloat list
     \<Rightarrow> npfloat npvalue \<Rightarrow> npfloat npvalue \<Rightarrow> string option list \<Rightarrow> py_exn + phase_row list" where
  "phase_frame n_cells genes c0 c1 gamma velocity_offset expression velocity color =
     (let n = n_cells * length genes;
          gene = concat (replicate n_cells genes)
      in then_do (column_values n c0) (\<lambda>c0.
         then_do (column_values n c1) (\<lambda>c1.
         then_do (fit_index n (concat (replicate n_cells gamma))) (\<lambda>ga.
         then_do (fit_index n (concat (replicate n_cells velocity_offset))) (\<lambda>vo.
         then_do (column_values n expression) (\<lambda>ex.
         then_do (column_values n velocity) (\<lambda>ve.
         then_do (fit_index n color) (\<lambda>co.
         Inr (map (\<lambda>i. \<lparr>col_0 = c0 ! i, col_1 = c1 ! i, row_gene = gene ! i,
                         row_gamma = ga ! i, row_velocity_offset = vo ! i,
                         row_expression = ex ! i, row_velocity = ve ! i,
                         row_color = co ! i\<rparr>) [0..<n])))))))))"

text \<open>
  Lines 274 to 321: the data frame of the mode. The values of the dictionary are
  evaluated in the order in which they are written, before the data frame is built.
  In labelling mode (lines 275 to 280) and in splicing mode (lines 283 to 288) the two
  matrices are made dense when the first of them is sparse.
\<close>

definition two_matrices :: "array2 \<Rightarrow> array2 \<Rightarrow> py_exn + (array2 \<times> array2)" where
  "two_matrices m0 m1 =
     (if is_sparse m0 then then_do (dot_A m0) (\<lambda>a. then_do (dot_A m1) (\<lambda>b. Inr (a, b)))
      else Inr (m0, m1))"

definition frame_of_two ::
  "anndata \<Rightarrow> string list \<Rightarrow> string list option \<Rightarrow> npfloat list \<Rightarrow> npfloat list
     \<Rightarrow> array2 \<Rightarrow> array2 \<Rightarrow> array2 \<Rightarrow> array2 \<Rightarrow> py_exn + phase_row list" where
  "frame_of_two adata genes color gamma velocity_offset E_vec V_vec m0 m1 =
     then_do (flatten m0) (\<lambda>c0.
     then_do (flatten m1) (\<lambda>c1.
     then_do (flatten E_vec) (\<lambda>ex.
     then_do (flatten V_vec) (\<lambda>ve.
     phase_frame (length (obs_names adata)) genes c0 c1 gamma velocity_offset ex ve
       (color_column adata color (length (obs_names adata)) (length genes))))))"

text \<open>
  Full mode with \<open>'protein'\<close> in \<open>adata.obsm\<close>, lines 293 to 314: the protein parameters,
  the matrix \<open>P\<close>, the conversions of line 304 (\<open>P\<close> is an ndarray, which has no \<open>.A\<close>),
  \<open>P_vec\<close>, and the data frame with the further columns S, P, gamma_P,
  velocity_offset_P and velocity_protein, each of which must fit the index. The model
  keeps the columns that the other modes have.
\<close>

definition frame_of_protein ::
  "anndata \<Rightarrow> string list \<Rightarrow> nat list \<Rightarrow> string list option \<Rightarrow> npfloat list \<Rightarrow> npfloat list
     \<Rightarrow> array2 \<Rightarrow> array2 \<Rightarrow> array2 option \<Rightarrow> array2 \<Rightarrow> array2 \<Rightarrow> array2 \<Rightarrow> array2
     \<Rightarrow> py_exn + phase_row list" where
  "frame_of_protein adata genes idx color gamma velocity_offset E_vec V_vec P_vec uu ul su sl =
     (case var adata ''velocity_parameter_eta'' of
        None \<Rightarrow>
          Inl (Exception (''adata does not seem to have velocity_gamma column. Velocity estimation is required before ''
                          @ ''running this function.''))
      | Some eta \<Rightarrow>
          (let n_cells = length (obs_names adata);
               n = n_cells * length genes;
               gamma_P = select_labels (var_names adata) eta genes;
               velocity_offset_P =
                 (case var adata ''velocity_offset_P'' of
                    None \<Rightarrow> replicate n_cells (Fin 0)
                  | Some off \<Rightarrow> select_labels (var_names adata) off genes);
               P = Ndarray (map (map Fin) (snd (the (obsm adata ''protein''))))
           in then_do (if is_sparse uu then
                         then_do (dot_A uu) (\<lambda>uu'. then_do (dot_A ul) (\<lambda>ul'.
                         then_do (dot_A su) (\<lambda>su'. then_do (dot_A sl) (\<lambda>sl'.
                         then_do (dot_A P) (\<lambda>P'. Inr (uu', ul', su', sl', P'))))))
                       else Inr (uu, ul, su, sl, P)) (\<lambda>(uu, ul, su, sl, P).
              then_do (case P_vec of
                         None \<Rightarrow> Inl (UnboundLocalError ''P_vec'')
                       | Some pv \<Rightarrow> if is_sparse pv then dot_A pv else Inr pv) (\<lambda>P_vec.
              then_do (add2 ul sl) (\<lambda>new.
              then_do (flatten new) (\<lambda>c0.
              then_do (add2 uu ul) (\<lambda>t1. then_do (add2 t1 sl) (\<lambda>t2. then_do (add2 t2 su) (\<lambda>total.
              then_do (flatten total) (\<lambda>c1.
              then_do (add2 sl su) (\<lambda>S.
              then_do (flatten S) (\<lambda>c2.
              then_do (flatten P) (\<lambda>c3.
              then_do (flatten E_vec) (\<lambda>ex.
              then_do (flatten V_vec) (\<lambda>ve.
              then_do (flatten P_vec) (\<lambda>vp.
              then_do (column_values n c0) (\<lambda>x0.
              then_do (column_values n c1) (\<lambda>x1.
              then_do (column_values n c2) (\<lambda>x2.
              then_do (column_values n c3) (\<lambda>x3.
              then_do (fit_index n (concat (replicate n_cells gamma))) (\<lambda>x4.
              then_do (fit_index n (concat (replicate n_cells velocity_offset))) (\<lambda>x5.
              then_do (fit_index n (concat (replicate n_cells gamma_P))) (\<lambda>x6.
              then_do (fit_index n (concat (replicate n_cells velocity_offset_P))) (\<lambda>x7.
              then_do (column_values n ex) (\<lambda>x8.
              then_do (column_values n ve) (\<lambda>x9.
              then_do (column_values n vp) (\<lambda>x10.
              phase_frame n_cells genes c0 c1 gamma velocity_offset ex ve
                (color_column adata color n_cells (length genes)))))))))))))))))))))))))))))"

text \<open>
  Full mode without protein, lines 316 to 318: the columns new and total are the sums
  \<open>ul + sl\<close> and \<open>uu + ul + sl + su\<close>, flattened.
\<close>

definition frame_of_full ::
  "anndata \<Rightarrow> string list \<Rightarrow> string list option \<Rightarrow> npfloat list \<Rightarrow> npfloat list
     \<Rightarrow> array2 \<Rightarrow> array2 \<Rightarrow> array2 \<Rightarrow> array2 \<Rightarrow> array2 \<Rightarrow> array2 \<Rightarrow> py_exn + phase_row list" where
  "frame_of_full adata genes color gamma velocity_offset E_vec V_vec uu ul su sl =
     then_do (add2 ul sl) (\<lambda>new.
     then_do (flatten new) (\<lambda>c0.
     then_do (add2 uu ul) (\<lambda>t1. then_do (add2 t1 sl) (\<lambda>t2. then_do (add2 t2 su) (\<lambda>total.
     then_do (flatten total) (\<lambda>c1.
     then_do (flatten E_vec) (\<lambda>ex.
     then_do (flatten V_vec) (\<lambda>ve.
     phase_frame (length (obs_names adata)) genes c0 c1 gamma velocity_offset ex ve
       (color_column adata color (length (obs_names adata)) (length genes))))))))))"

definition phase_portraits_frame ::
  "anndata \<Rightarrow> string list \<Rightarrow> nat list \<Rightarrow> pystr \<Rightarrow> string list option \<Rightarrow> npfloat list
     \<Rightarrow> npfloat list \<Rightarrow> array2 \<Rightarrow> array2 \<Rightarrow> array2 option \<Rightarrow> py_exn + phase_row list" where
  "phase_portraits_frame adata genes idx mode color gamma velocity_offset E_vec V_vec P_vec =
     (if py_is mode ''labelling'' \<and> list_all (has_key (layers adata)) [''new'', ''total''] then
        then_do (get_layer adata idx ''new'') (\<lambda>new_mat.
        then_do (get_layer adata idx ''total'') (\<lambda>tot_mat.
        then_do (two_matrices new_mat tot_mat) (\<lambda>(new_mat, tot_mat).
        frame_of_two adata genes color gamma velocity_offset E_vec V_vec new_mat tot_mat)))
      else if py_is mode ''splicing''
              \<and> list_all (has_key (layers adata)) [''spliced'', ''unspliced''] then
        then_do (get_layer adata idx ''X_unspliced'') (\<lambda>unspliced_mat.
        then_do (get_layer adata idx ''X_spliced'') (\<lambda>spliced_mat.
        then_do (two_matrices unspliced_mat spliced_mat) (\<lambda>(unspliced_mat, spliced_mat).
        frame_of_two adata genes color gamma velocity_offset E_vec V_vec unspliced_mat spliced_mat)))
      else if py_is mode ''full''
              \<and> list_all (has_key (layers adata)) [''uu'', ''ul'', ''su'', ''sl''] then
        then_do (get_layer adata idx ''X_uu'') (\<lambda>uu.
        then_do (get_layer adata idx ''X_ul'') (\<lambda>ul.
        then_do (get_layer adata idx ''X_su'') (\<lambda>su.
        then_do (get_layer adata idx ''X_sl'') (\<lambda>sl.
          if has_key (obsm adata) ''protein'' then
            frame_of_protein adata genes idx color gamma velocity_offset E_vec V_vec P_vec uu ul su sl
          else
            frame_of_full adata genes color gamma velocity_offset E_vec V_vec uu ul su sl))))
      else Inl (Exception (''Your adata is corrupted. Make sure that your layer has keys new, old for the labelling mode, ''
                           @ ''spliced, ambiguous, unspliced for the splicing model and uu, ul, su, sl for the full mode'')))"

text \<open>\<open>df.loc[df.gene == gn, :]\<close>, with the index labels of the rows that are kept.\<close>

definition rows_of_gene :: "phase_row list \<Rightarrow> string \<Rightarrow> phase_row list" where
  "rows_of_gene df gn = filter (\<lambda>r. row_gene r = gn) df"

definition index_of_gene :: "phase_row list \<Rightarrow> string \<Rightarrow> nat list" where
  "index_of_gene df gn = filter (\<lambda>i. row_gene (df ! i) = gn) [0..<length df]"

text \<open>
  \<open>Series.max()\<close> leaves NaN out and is NaN on a column without any other entry;
  \<open>Series.unique()\<close> gives the distinct values in the order of their first appearance.
\<close>

definition series_max :: "npfloat list \<Rightarrow> npfloat" where
  "series_max xs = nanmax xs"

definition unique :: "'a list \<Rightarrow> 'a list" where
  "unique xs = rev (remdups (rev xs))"

text \<open>
  \<open>np.linspace(start, stop)\<close> with the default 50 points:
  \<^verbatim>\<open>delta = stop - start\<close>, \<^verbatim>\<open>step = delta / 49\<close>, the points \<^verbatim>\<open>arange(0, 50) * step + start\<close>
  (\<^verbatim>\<open>arange(0, 50) / 49 * delta + start\<close> when the step is zero), and the last point set
  to \<open>stop\<close>.
\<close>

definition linspace :: "npfloat \<Rightarrow> npfloat \<Rightarrow> npfloat list" where
  "linspace start stop =
     (let delta = np_subtract stop start;
          step = np_divide delta (Fin 49);
          y = map (\<lambda>i. if step = Fin 0 then np_multiply (np_divide (Fin (real i)) (Fin 49)) delta
                        else np_multiply (Fin (real i)) step) [0..<50]
      in map (\<lambda>v. np_add v start) (butlast y) @ [stop])"

text \<open>
  Lines 346 and 347:
  \<^verbatim>\<open>xnew = np.linspace(0, cur_pd.iloc[:, 1].max())\<close> and the second argument of
  \<^verbatim>\<open>ax1.plot(xnew, xnew * cur_pd.loc[:, 'gamma'].unique() + cur_pd.loc[:, 'velocity_offset'].unique(), c="k")\<close>.
  The result is the pair of the x and y values handed to \<open>plot\<close>; arrays that do not
  broadcast raise ValueError.
\<close>

definition phase_line :: "phase_row list \<Rightarrow> py_exn + (npfloat list \<times> npfloat list)" where
  "phase_line cur_pd =
     (let xnew = linspace (Fin 0) (series_max (map col_1 cur_pd))
      in then_do (broadcast_op np_multiply (Arr1 xnew)
                    (Arr1 (unique (map row_gamma cur_pd)))) (\<lambda>gx.
         then_do (broadcast_op np_add gx
                    (Arr1 (unique (map row_velocity_offset cur_pd)))) (\<lambda>line.
         Inr (xnew, data_of line))))"

text \<open>
  Line 340, \<^verbatim>\<open>if cur_pd.color.unique() != np.nan\<close>: the comparison gives one boolean for
  each distinct value of the column, all of them true. The truth value of that array is
  false when it is empty, true when it has one entry, and an array of several entries
  has no truth value (ValueError).
\<close>

definition color_test :: "phase_row list \<Rightarrow> py_exn + bool" where
  "color_test cur_pd =
     (let u = unique (map row_color cur_pd)
      in if length u = 0 then Inr False else if length u = 1 then Inr True else Inl ValueError)"

text \<open>
  Lines 354 and 355 (and the hue of line 364): a column of
  \<open>pd.concat([cur_pd, embedding], axis=1)\<close>. The index of the result is the union of the
  index labels of \<open>cur_pd\<close> and of the embedding (\<open>0\<close> to the number of its rows), in
  increasing order; a label that \<open>cur_pd\<close> does not have gets NaN.
\<close>

definition aligned_column ::
  "(phase_row \<Rightarrow> npfloat) \<Rightarrow> phase_row list \<Rightarrow> string \<Rightarrow> nat \<Rightarrow> npfloat list" where
  "aligned_column f df gn n_embedding =
     map (\<lambda>i. if i < length df \<and> row_gene (df ! i) = gn then f (df ! i) else NaN)
       (filter (\<lambda>i. (i < length df \<and> row_gene (df ! i) = gn) \<or> i < n_embedding)
          [0..<max (length df) n_embedding])"

text \<open>
  What one turn of the loop of lines 329 to 404 hands to matplotlib and seaborn for the
  gene \<open>gn\<close>: the x and y values of the scatter plot of the phase portrait (lines 341 and
  343: column 1 and column 0 of \<open>cur_pd\<close>), the x and y values of the line (line 347),
  the hue of the expression panel (line 364), the column velocity before lines 357 to
  361, and the hue of the velocity panel (line 369). A call into matplotlib or seaborn is
  recorded with the data it is given; what the library does with them is outside the
  model, which goes on as if the call returned.
\<close>

record panels =
  panel_gene :: string
  scatter_x :: "npfloat list"
  scatter_y :: "npfloat list"
  line_x :: "npfloat list"
  line_y :: "npfloat list"
  expression_hue :: "npfloat list"
  velocity_column :: "npfloat list"
  velocity_hue :: "npfloat list"

text \<open>
  Lines 339 to 404 for one gene. The gene is in \<open>adata.var.index\<close>, so the \<open>continue\<close> of
  line 338 is never taken. With \<open>'protein'\<close> in \<open>adata.obsm\<close>, mode the literal \<open>'full'\<close>
  and the four layers present, line 375 reads the name \<open>group\<close>, which is defined
  nowhere (NameError).
\<close>

definition phase_portraits_panel ::
  "anndata \<Rightarrow> pystr \<Rightarrow> phase_row list \<Rightarrow> nat \<Rightarrow> string \<Rightarrow> py_exn + panels" where
  "phase_portraits_panel adata mode df n_embedding gn =
     (let cur_pd = rows_of_gene df gn
      in then_do (color_test cur_pd) (\<lambda>hue_is_expression.
         then_do (phase_line cur_pd) (\<lambda>(xnew, line).
           let V_vec = aligned_column row_velocity df gn n_embedding
           in if has_key (obsm adata) ''protein'' \<and> py_is mode ''full''
                 \<and> list_all (has_key (layers adata)) [''uu'', ''ul'', ''su'', ''sl'']
              then Inl (NameError ''group'')
              else Inr \<lparr>panel_gene = gn,
                        scatter_x = map col_1 cur_pd, scatter_y = map col_0 cur_pd,
                        line_x = xnew, line_y = line,
                        expression_hue = aligned_column row_expression df gn n_embedding,
                        velocity_column = V_vec,
                        velocity_hue = velocity_colour V_vec\<rparr>)))"

text \<open>
  \<open>phase_portraits(adata, genes, x, y, mode, vkey, ekey, basis, color)\<close>: the checks of
  lines 223 to 234, the data frame, and the panels of the genes in the order of the
  loop. \<open>fold_panels\<close> runs the turns of the loop one after the other, up to the
  first that raises.
\<close>

fun fold_panels ::
  "anndata \<Rightarrow> pystr \<Rightarrow> phase_row list \<Rightarrow> nat \<Rightarrow> string list \<Rightarrow> py_exn + panels list" where
  "fold_panels adata mode df n_embedding [] = Inr []"
| "fold_panels adata mode df n_embedding (gn # gns) =
     then_do (phase_portraits_panel adata mode df n_embedding gn) (\<lambda>p.
     then_do (fold_panels adata mode df n_embedding gns) (\<lambda>ps. Inr (p # ps)))"

definition phase_portraits ::
  "anndata \<Rightarrow> string list \<Rightarrow> int \<Rightarrow> int \<Rightarrow> pystr \<Rightarrow> pystr \<Rightarrow> pystr \<Rightarrow> string
     \<Rightarrow> string list option \<Rightarrow> py_exn + panels list" where
  "phase_portraits adata genes x y mode vkey ekey basis color =
     then_do (phase_portraits_checks adata genes x y mode basis) (\<lambda>(genes, idx, dim_1, dim_2).
     then_do (phase_portraits_E_vec adata idx ekey) (\<lambda>E_vec.
     then_do (phase_portraits_V_vec adata idx vkey) (\<lambda>(V_vec, P_vec).
     then_do (phase_portraits_densify E_vec V_vec) (\<lambda>(E_vec, V_vec).
     then_do (phase_portraits_gamma adata genes) (\<lambda>(gamma, velocity_offset).
     then_do (phase_portraits_frame adata genes idx mode color gamma velocity_offset
                E_vec V_vec P_vec) (\<lambda>df.
     fold_panels adata mode df (length dim_1) genes))))))"

section \<open>Example inputs\<close>

text \<open>
  Two cells and two genes, with every layer the three modes read; the second cell has no
  counts at all. The first object stores its matrices dense, the second as CSR.
\<close>

definition dense_adata :: anndata where
  "dense_adata =
     \<lparr>obs_names = [''cell0'', ''cell1''], var_names = [''geneA'', ''geneB''],
      X_matrix = Dense [[4, 2], [0, 0]],
      layers = [''unspliced'' \<mapsto> Dense [[1, 2], [0, 0]], ''spliced'' \<mapsto> Dense [[3, 0], [0, 0]],
                ''new'' \<mapsto> Dense [[1, 0], [0, 0]], ''total'' \<mapsto> Dense [[4, 2], [0, 0]],
                ''uu'' \<mapsto> Dense [[1, 1], [0, 0]], ''ul'' \<mapsto> Dense [[0, 1], [0, 0]],
                ''su'' \<mapsto> Dense [[2, 0], [0, 0]], ''sl'' \<mapsto> Dense [[1, 0], [0, 0]]],
      obs = Map.empty, var = Map.empty, obsm = Map.empty\<rparr>"

definition sparse_adata :: anndata where
  "sparse_adata =
     \<lparr>obs_names = [''cell0'', ''cell1''], var_names = [''geneA'', ''geneB''],
      X_matrix = Sparse 2 [[(0, 4), (1, 2)], []],
      layers = [''unspliced'' \<mapsto> Sparse 2 [[(0, 1), (1, 2)], []], ''spliced'' \<mapsto> Sparse 2 [[(0, 3)], []],
                ''new'' \<mapsto> Sparse 2 [[(0, 1)], []], ''total'' \<mapsto> Sparse 2 [[(0, 4), (1, 2)], []],
                ''uu'' \<mapsto> Sparse 2 [[(0, 1), (1, 1)], []], ''ul'' \<mapsto> Sparse 2 [[(1, 1)], []],
                ''su'' \<mapsto> Sparse 2 [[(0, 2)], []], ''sl'' \<mapsto> Sparse 2 [[(0, 1)], []]],
      obs = Map.empty, var = Map.empty, obsm = Map.empty\<rparr>"

text \<open>
  The dense example after preprocessing and a UMAP embedding: the normalised layers that
  scatters looks for and a two-column embedding.
\<close>

definition embedded_adata :: anndata where
  "embedded_adata =
     dense_adata\<lparr>layers := (layers dense_adata)(''X_unspliced'' \<mapsto> Dense [[1, 2], [0, 0]],
                                                 ''X_spliced'' \<mapsto> Dense [[3, 0], [0, 0]]),
                 obsm := [''X_umap'' \<mapsto> (2, [[0, 1], [1, 0]])]\<rparr>"

text \<open>
  The embedded example after the velocity estimation: the velocity layer of the spliced
  counts and the parameter gamma of the two genes. One cell with the counts 1, 4 and 1
  in the three layers of the splicing mode.
\<close>

definition velocity_adata :: anndata where
  "velocity_adata =
     embedded_adata\<lparr>layers := (layers embedded_adata)(''velocity_S'' \<mapsto> Dense [[- 1, 1], [- 3, 2]]),
                    var := [''velocity_parameter_gamma'' \<mapsto> [Fin (1 / 2), Fin 2]]\<rparr>"



section \<open>Properties of show\_fraction\<close>



lemma dense_sum_axis1: "\<not> issparse m \<Longrightarrow> sum_axis1 m = Arr1 (row_sums m)"
  by (cases m) (simp_all add: row_sums_def)

lemma sparse_sum_A1: "issparse m \<Longrightarrow> A1 (sum_axis1 m) = Inr (Arr1 (row_sums m))"
  by (cases m) (simp_all add: row_sums_def)

lemma then_do_Inr: "then_do (Inr v) k = k v"
  by (simp add: then_do_def)

lemma then_do_Inl: "then_do (Inl e) k = Inl e"
  by (simp add: then_do_def)


lemma cell_sums_ambiguous:
  assumes "issparse Am = issparse U"
  shows "(if issparse U then A1 (sum_axis1 Am) else Inr (sum_axis1 Am)) = Inr (Arr1 (row_sums Am))"
  using assms by (simp add: dense_sum_axis1 sparse_sum_A1)





lemma then_do_eq_Inr: "(then_do r k = Inr v) = (\<exists>x. r = Inr x \<and> k x = Inr v)"
  by (cases r) (simp_all add: then_do_def)

lemma labelling_branch_not_Inr: "labelling_branch adata \<noteq> Inr res"
  by (simp add: labelling_branch_def Let_def then_do_eq_Inr)

lemma full_branch_not_Inr: "full_branch adata \<noteq> Inr res"
  by (simp add: full_branch_def Let_def then_do_eq_Inr)

lemma labelling_branch_raises:
  assumes "layers adata ''total'' = Some T"
  shows "labelling_branch adata = Inl (if issparse T then ValueError else AttributeError)"
proof (cases "issparse (the (layers adata ''new''))")
  case True
  then show ?thesis
    using assms
    by (cases T) (simp_all add: labelling_branch_def Let_def then_do_Inr then_do_Inl sparse_sum_A1)
next
  case False
  then show ?thesis
    using assms
    by (cases T) (simp_all add: labelling_branch_def Let_def then_do_Inr then_do_Inl)
qed







text \<open>
  Claim C3, as amended. With mode the literal 'labelling' and both layers present,
  show_fraction always raises at line 35, before any fraction is computed: ValueError
  (three values for two names) when the layer total is a scipy matrix, AttributeError
  (an ndarray has no A1) when it is a dense array.
\<close>

theorem show_fraction_labelling_raises:
  assumes "py_is mode ''labelling''"
    and "layers adata ''new'' = Some N"
    and "layers adata ''total'' = Some T"
  shows "show_fraction adata mode grp = Inl (if issparse T then ValueError else AttributeError)"
  using assms
  by (simp add: show_fraction_def py_is_def has_key_def labelling_branch_raises then_do_Inl)

text \<open>The CSR example in labelling mode raises ValueError.\<close>

theorem show_fraction_labelling_raises_witness:
  "show_fraction sparse_adata (Str True ''labelling'') None = Inl ValueError"
  using show_fraction_labelling_raises [of "Str True ''labelling''" sparse_adata
      "Sparse 2 [[(0, 1)], []]" "Sparse 2 [[(0, 4), (1, 2)], []]" None]
  by (simp add: py_is_def sparse_adata_def)

text \<open>
  Claim C3 as stated fails on dense layers: the exception is AttributeError, not
  ValueError.
\<close>

theorem show_fraction_labelling_counterexample:
  "has_key (layers dense_adata) ''new'' \<and> has_key (layers dense_adata) ''total''
   \<and> show_fraction dense_adata (Str True ''labelling'') None = Inl AttributeError
   \<and> show_fraction dense_adata (Str True ''labelling'') None \<noteq> Inl ValueError"
  by (simp add: dense_adata_def show_fraction_def py_is_def has_key_def labelling_branch_def
      then_do_def Let_def)

text \<open>
  Claim C5. When mode is one of 'labelling', 'splicing', 'full' and the layers lack one
  of that mode's keys, show_fraction raises the exception whose message begins with
  'Your adata is corrupted.' and reaches no plot.
\<close>

theorem show_fraction_missing_layers:
  assumes "chars mode = ''labelling''
             \<and> \<not> (has_key (layers adata) ''new'' \<and> has_key (layers adata) ''total'')
           \<or> chars mode = ''splicing''
             \<and> \<not> (has_key (layers adata) ''spliced'' \<and> has_key (layers adata) ''unspliced'')
           \<or> chars mode = ''full''
             \<and> \<not> (has_key (layers adata) ''uu'' \<and> has_key (layers adata) ''ul''
                  \<and> has_key (layers adata) ''su'' \<and> has_key (layers adata) ''sl'')"
  shows "show_fraction adata mode grp =
           Inl (Exception (''Your adata is corrupted.'' @
             '' Make sure that your layer has keys new, total for the labelling mode, spliced, (ambiguous, optional), unspliced for the splicing model and uu, ul, su, sl for the full mode''))"
  using assms
  by (auto simp add: show_fraction_def py_is_def then_do_Inl)


text \<open>Splicing mode on layers that hold spliced but not unspliced.\<close>

theorem show_fraction_missing_layers_witness:
  "show_fraction (dense_adata\<lparr>layers := [''spliced'' \<mapsto> Dense [[3, 0], [0, 0]]]\<rparr>)
     (Str True ''splicing'') None =
   Inl (Exception (''Your adata is corrupted.'' @
     '' Make sure that your layer has keys new, total for the labelling mode, spliced, (ambiguous, optional), unspliced for the splicing model and uu, ul, su, sl for the full mode''))"
  using show_fraction_missing_layers
    [of "Str True ''splicing''" "dense_adata\<lparr>layers := [''spliced'' \<mapsto> Dense [[3, 0], [0, 0]]]\<rparr>" None]
  by (simp add: has_key_def)


section \<open>Properties of the opening checks of phase\_portraits and scatters\<close>

lemma column_ok:
  assumes "- int nc \<le> x" "x < int nc"
  shows "\<exists>c. column (nc, rows) x = Inr c"
  using assms by (auto simp add: column_def Let_def)

lemma genes_and_embedding_ok:
  assumes g: "\<exists>g \<in> set genes. g \<in> set (var_names adata)"
    and b: "obsm adata (''X_'' @ basis) = Some (nc, rows)"
    and x: "- int nc \<le> x" "x < int nc" and y: "- int nc \<le> y" "y < int nc"
  shows "\<exists>found. genes_and_embedding adata genes x y basis = Inr found"
proof -
  from g have "filter (\<lambda>g. g \<in> set genes) (var_names adata) \<noteq> []"
    by (auto simp add: filter_empty_conv)
  moreover obtain c1 where "column (nc, rows) x = Inr c1"
    using column_ok [OF x] by blast
  moreover obtain c2 where "column (nc, rows) y = Inr c2"
    using column_ok [OF y] by blast
  ultimately show ?thesis
    using b by (simp add: genes_and_embedding_def Let_def has_key_def then_do_def)
qed

lemma genes_and_embedding_layers:
  "genes_and_embedding (adata\<lparr>layers := L\<rparr>) genes x y basis = genes_and_embedding adata genes x y basis"
  by (simp add: genes_and_embedding_def Let_def cong: if_cong)

text \<open>
  Claim C4, as amended. For a mode outside 'labelling', 'splicing', 'full', show_fraction
  always raises 'mode can be only one of the labelling, splicing or full'; phase_portraits
  raises it when at least one requested gene is in adata.var.index and the embedding
  'X_' + basis exists with columns x and y (those checks come first and raise their own
  exceptions). In both the outcome is the same whatever the layers are: no layer is read.
\<close>

theorem invalid_mode_raises:
  assumes "chars mode \<notin> {''labelling'', ''splicing'', ''full''}"
  shows "show_fraction (adata\<lparr>layers := L\<rparr>) mode grp =
           Inl (Exception ''mode can be only one of the labelling, splicing or full'')
         \<and> ((\<exists>g \<in> set genes. g \<in> set (var_names adata))
              \<and> (\<exists>nc rows. obsm adata (''X_'' @ basis) = Some (nc, rows)
                    \<and> - int nc \<le> x \<and> x < int nc \<and> - int nc \<le> y \<and> y < int nc)
            \<longrightarrow> phase_portraits_checks (adata\<lparr>layers := L\<rparr>) genes x y mode basis =
                  Inl (Exception ''mode can be only one of the labelling, splicing or full''))"
proof (intro conjI impI)
  show "show_fraction (adata\<lparr>layers := L\<rparr>) mode grp =
           Inl (Exception ''mode can be only one of the labelling, splicing or full'')"
    using assms by (simp add: show_fraction_def)
next
  assume h: "(\<exists>g \<in> set genes. g \<in> set (var_names adata))
              \<and> (\<exists>nc rows. obsm adata (''X_'' @ basis) = Some (nc, rows)
                    \<and> - int nc \<le> x \<and> x < int nc \<and> - int nc \<le> y \<and> y < int nc)"
  then obtain nc rows where b: "obsm adata (''X_'' @ basis) = Some (nc, rows)"
    and x: "- int nc \<le> x" "x < int nc" and y: "- int nc \<le> y" "y < int nc"
    by blast
  from h have g: "\<exists>g \<in> set genes. g \<in> set (var_names adata)" by blast
  obtain found where "genes_and_embedding adata genes x y basis = Inr found"
    using genes_and_embedding_ok [OF g b x y] by blast
  then show "phase_portraits_checks (adata\<lparr>layers := L\<rparr>) genes x y mode basis =
                  Inl (Exception ''mode can be only one of the labelling, splicing or full'')"
    using assms by (simp add: phase_portraits_checks_def genes_and_embedding_layers then_do_def)
qed

text \<open>The mode 'velocity' on the embedded example, with all layers taken away.\<close>

theorem invalid_mode_raises_witness:
  "show_fraction (embedded_adata\<lparr>layers := Map.empty\<rparr>) (Str True ''velocity'') None =
     Inl (Exception ''mode can be only one of the labelling, splicing or full'')
   \<and> phase_portraits_checks (embedded_adata\<lparr>layers := Map.empty\<rparr>) [''geneA''] 0 1
        (Str True ''velocity'') ''umap'' =
     Inl (Exception ''mode can be only one of the labelling, splicing or full'')"
  using invalid_mode_raises
    [where mode = "Str True ''velocity''" and adata = embedded_adata and L = Map.empty
       and grp = None and genes = "[''geneA'']" and basis = "''umap''" and x = 0 and y = 1]
  by (simp add: embedded_adata_def dense_adata_def)

text \<open>
  Claim C4 as stated fails for phase_portraits: with an invalid mode and no requested gene
  in the data, the exception is the one about the genes.
\<close>

theorem invalid_mode_counterexample:
  "chars (Str True ''velocity'') \<notin> {''labelling'', ''splicing'', ''full''}
   \<and> phase_portraits_checks embedded_adata [''geneZ''] 0 1 (Str True ''velocity'') ''umap'' =
       Inl (Exception ''adata has no genes listed in your input gene vector: []'')
   \<and> phase_portraits_checks embedded_adata [''geneZ''] 0 1 (Str True ''velocity'') ''umap'' \<noteq>
       Inl (Exception ''mode can be only one of the labelling, splicing or full'')"
  by (simp add: phase_portraits_checks_def genes_and_embedding_def embedded_adata_def
      dense_adata_def then_do_def)

lemma scatters_setup_vkey:
  assumes "scatters_setup adata genes x y type velocity_key ekey basis color = Inr locals"
  shows "sc_vkey locals =
           (if \<not> str_contains ''velocity_'' (chars velocity_key)
            then Some (py_concat ''velocity_'' velocity_key) else None)"
  using assms
  by (auto simp add: scatters_setup_def then_do_def split: sum.splits prod.splits)

lemma fresh_is_no_literal: "\<not> py_is (py_concat a s) lit"
  by (simp add: py_is_def py_concat_def)

text \<open>
  Claim C2, as amended. A call of scatters with a type that is not the literal 'embedding'
  never gets past line 219: it always raises. When the earlier steps (genes, embedding,
  mode layers, ekey, color) raise nothing, the exception is 'adata has no vkey velocity_...
  in either the layers or the obsm attribute' if velocity_key does not contain
  'velocity_', and UnboundLocalError for the name vkey if it does.
\<close>

theorem scatters_velocity_lookup_raises:
  assumes "\<not> py_is type ''embedding''"
  shows "(\<exists>e. scatters_head adata genes x y type velocity_key ekey basis color = Inl e)
       \<and> (\<forall>locals. scatters_setup adata genes x y type velocity_key ekey basis color = Inr locals \<longrightarrow>
            scatters_head adata genes x y type velocity_key ekey basis color =
              Inl (if str_contains ''velocity_'' (chars velocity_key)
                   then UnboundLocalError ''vkey''
                   else Exception (''adata has no vkey '' @ ''velocity_'' @ chars velocity_key
                                   @ '' in either the layers or the obsm attribute'')))"
proof (cases "scatters_setup adata genes x y type velocity_key ekey basis color")
  case (Inl e)
  then show ?thesis
    by (simp add: scatters_head_def then_do_def)
next
  case (Inr locals)
  note vk = scatters_setup_vkey [OF Inr]
  have "scatters_head adata genes x y type velocity_key ekey basis color =
              Inl (if str_contains ''velocity_'' (chars velocity_key)
                   then UnboundLocalError ''vkey''
                   else Exception (''adata has no vkey '' @ ''velocity_'' @ chars velocity_key
                                   @ '' in either the layers or the obsm attribute''))"
    using assms
    by (simp add: scatters_head_def Inr then_do_def vk fresh_is_no_literal)
       (simp add: py_concat_def)
  then show ?thesis
    using Inr by simp
qed

text \<open>The documented velocity_key 'S' on the embedded example.\<close>

theorem scatters_velocity_lookup_raises_witness:
  "scatters_head embedded_adata [''geneA''] 0 1 (Str True ''velocity'') (Str True ''S'')
     (Str True ''X'') ''umap'' None =
   Inl (Exception ''adata has no vkey velocity_S in either the layers or the obsm attribute'')"
proof -
  have t: "\<not> py_is (Str True ''velocity'') ''embedding''"
    by (simp add: py_is_def)
  have s: "scatters_setup embedded_adata [''geneA''] 0 1 (Str True ''velocity'') (Str True ''S'')
             (Str True ''X'') ''umap'' None =
           Inr \<lparr>sc_genes = [''geneA''], sc_embedding = ([0, 1], [1, 0]),
                sc_mode = Str True ''splicing'', sc_E_vec_bound = True, sc_n_genes = 1,
                sc_color = None, sc_vkey = Some (Str False ''velocity_S'')\<rparr>"
    by (simp add: scatters_setup_def genes_and_embedding_def scatters_mode_def scatters_E_vec_def
        scatters_color_def embedded_adata_def dense_adata_def then_do_def has_key_def column_def
        py_is_def py_concat_def)
  from scatters_velocity_lookup_raises [OF t, THEN conjunct2, THEN spec, THEN mp, OF s]
  show ?thesis by simp
qed

text \<open>
  Claim C2 as stated fails: with velocity_key 'velocity_S' the name vkey is never bound
  and the exception is UnboundLocalError; with no requested gene in the data the
  exception is the one about the genes.
\<close>

theorem scatters_velocity_lookup_counterexample:
  "\<not> py_is (Str True ''velocity'') ''embedding''
   \<and> scatters_head embedded_adata [''geneA''] 0 1 (Str True ''velocity'') (Str True ''velocity_S'')
       (Str True ''X'') ''umap'' None = Inl (UnboundLocalError ''vkey'')
   \<and> scatters_head embedded_adata [''geneZ''] 0 1 (Str True ''velocity'') (Str True ''S'')
       (Str True ''X'') ''umap'' None =
      Inl (Exception ''adata has no genes listed in your input gene vector: []'')"
  by (simp add: scatters_head_def scatters_setup_def genes_and_embedding_def scatters_mode_def
      scatters_E_vec_def scatters_color_def embedded_adata_def dense_adata_def then_do_def
      has_key_def column_def py_is_def py_concat_def)

section \<open>Properties of the channel extractors\<close>

lemma red_bits_eq: "red_bits x = take_bit 8 (drop_bit 16 x)"
proof -
  have "drop_bit 16 (x AND push_bit 16 (mask 8)) = take_bit 8 (drop_bit 16 x)"
    by (intro bit_word_eqI) (auto simp add: bit_simps)
  then show ?thesis
    unfolding red_bits_def by (simp add: mask_eq_exp_minus_1)
qed

lemma green_bits_eq: "green_bits x = take_bit 8 (drop_bit 8 x)"
proof -
  have "drop_bit 8 (x AND push_bit 8 (mask 8)) = take_bit 8 (drop_bit 8 x)"
    by (intro bit_word_eqI) (auto simp add: bit_simps)
  then show ?thesis
    unfolding green_bits_def by (simp add: mask_eq_exp_minus_1)
qed

lemma blue_bits_eq: "blue_bits x = take_bit 8 x"
  unfolding blue_bits_def
  by (simp add: take_bit_eq_mask mask_eq_exp_minus_1)

lemma low24_eq: "x AND 0xFFFFFF = take_bit 24 x" for x :: "32 word"
  by (simp add: take_bit_eq_mask mask_eq_exp_minus_1)

lemma unat_red_bits: "unat (red_bits x) = (unat x div 65536) mod 256"
proof -
  have "unat (red_bits x) = take_bit 8 (drop_bit 16 (unat x))"
    unfolding red_bits_eq by (simp only: unsigned_take_bit_eq unat_drop_bit_eq)
  then show ?thesis
    by (simp add: take_bit_eq_mod drop_bit_eq_div)
qed

lemma unat_green_bits: "unat (green_bits x) = (unat x div 256) mod 256"
proof -
  have "unat (green_bits x) = take_bit 8 (drop_bit 8 (unat x))"
    unfolding green_bits_eq by (simp only: unsigned_take_bit_eq unat_drop_bit_eq)
  then show ?thesis
    by (simp add: take_bit_eq_mod drop_bit_eq_div)
qed

lemma unat_blue_bits: "unat (blue_bits x) = unat x mod 256"
proof -
  have "unat (blue_bits x) = take_bit 8 (unat x)"
    unfolding blue_bits_eq by (simp only: unsigned_take_bit_eq)
  then show ?thesis
    by (simp add: take_bit_eq_mod)
qed

lemma unat_low24: "unat (x AND 0xFFFFFF) = unat x mod 16777216" for x :: "32 word"
proof -
  have "unat (x AND 0xFFFFFF) = take_bit 24 (unat x)"
    unfolding low24_eq by (simp only: unsigned_take_bit_eq)
  then show ?thesis
    by (simp add: take_bit_eq_mod)
qed

lemma unat_to_uint8: "unat w < 256 \<Longrightarrow> unat (ucast w :: 8 word) = unat w"
  for w :: "32 word"
  by (simp add: unsigned_ucast_eq take_bit_eq_mod)

lemma nat_bytes:
  "(n div 65536) mod 256 * 65536 + (n div 256) mod 256 * 256 + n mod 256 = n mod 16777216"
  for n :: nat
proof -
  have a: "n mod (65536 * 256) = 65536 * (n div 65536 mod 256) + n mod 65536"
    by (rule mod_mult2_eq)
  have b: "n mod (256 * 256) = 256 * (n div 256 mod 256) + n mod 256"
    by (rule mod_mult2_eq)
  from a b show ?thesis by simp
qed

text \<open>
  Claim C10. For every uint32 pixel value x, the three returned bytes recompose the low
  24 bits of x: red * 65536 + green * 256 + blue = x AND 0xFFFFFF. Each returned byte is
  the value of its expression (the conversion to uint8 drops nothing), and each lies
  in [0, 255].
\<close>

theorem channels_recompose:
  "unat (red x) * 65536 + unat (green x) * 256 + unat (blue x) = unat (x AND 0xFFFFFF)
   \<and> unat (red x) = unat (red_bits x)
   \<and> unat (green x) = unat (green_bits x)
   \<and> unat (blue x) = unat (blue_bits x)
   \<and> unat (red x) \<le> 255 \<and> unat (green x) \<le> 255 \<and> unat (blue x) \<le> 255"
proof -
  have r: "unat (red x) = (unat x div 65536) mod 256"
    unfolding red_def by (simp add: unat_to_uint8 unat_red_bits)
  have g: "unat (green x) = (unat x div 256) mod 256"
    unfolding green_def by (simp add: unat_to_uint8 unat_green_bits)
  have b: "unat (blue x) = unat x mod 256"
    unfolding blue_def by (simp add: unat_to_uint8 unat_blue_bits)
  have le: "m mod 256 \<le> 255" for m :: nat
    using mod_less_divisor [of 256 m] by linarith
  show ?thesis
    unfolding r g b unat_red_bits unat_green_bits unat_blue_bits unat_low24
    using nat_bytes [of "unat x"] le by simp
qed

end
